theory Spec2Isabelle
  imports Main "HOL-Library.Word"
begin

section \<open>Solidity values and failures\<close>

text \<open>
  The development embeds \<^verbatim>\<open>contracts/BaseGuardian.sol\<close> (compiled with Solidity 0.8, so
  every \<^verbatim>\<open>uint256\<close> operation is checked). An \<^verbatim>\<open>address\<close> is a 160-bit word, a
  \<^verbatim>\<open>bytes32\<close> a 256-bit word. A \<^verbatim>\<open>uint256\<close> is a natural number; the three checked
  operations below return the panic that the compiled code raises instead of wrapping around,
  dividing by zero, or going below zero.

  A call either fails, and then the whole transaction is rolled back, or it returns the new
  ledger: \<open>Inl\<close> carries the failure, \<open>Inr\<close> the result.
\<close>

type_synonym address = "160 word"
type_synonym bytes32 = "256 word"

definition uint256_max :: nat where
  "uint256_max = 2 ^ 256 - 1"

datatype panic =
    Arithmetic_Overflow   \<comment> \<open>Panic(0x11): checked \<open>+\<close>, \<open>-\<close>, \<open>++\<close> out of range\<close>
  | Division_By_Zero      \<comment> \<open>Panic(0x12)\<close>
  | Enum_Conversion       \<comment> \<open>Panic(0x21): \<open>ThreatType(i)\<close> with \<open>i\<close> out of range\<close>
  | Array_Out_Of_Bounds   \<comment> \<open>Panic(0x32)\<close>

datatype error =
    Revert string         \<comment> \<open>a failed \<open>require\<close>, with its message\<close>
  | Panic panic
  | Transfer_Failed       \<comment> \<open>\<open>payable(a).transfer(v)\<close> refused by the recipient\<close>

type_synonym 'a result = "error + 'a"

definition and_then :: "'a result \<Rightarrow> ('a \<Rightarrow> 'b result) \<Rightarrow> 'b result" where
  "and_then m f = (case m of Inl e \<Rightarrow> Inl e | Inr x \<Rightarrow> f x)"

definition checked_add :: "nat \<Rightarrow> nat \<Rightarrow> nat result" where
  "checked_add a b = (if a + b \<le> uint256_max then Inr (a + b) else Inl (Panic Arithmetic_Overflow))"

definition checked_sub :: "nat \<Rightarrow> nat \<Rightarrow> nat result" where
  "checked_sub a b = (if b \<le> a then Inr (a - b) else Inl (Panic Arithmetic_Overflow))"

definition checked_div :: "nat \<Rightarrow> nat \<Rightarrow> nat result" where
  "checked_div a b = (if b = 0 then Inl (Panic Division_By_Zero) else Inr (a div b))"

section \<open>Data model\<close>

datatype ThreatType =
  HONEYPOT | RUGPULL | MEV_VULNERABILITY | SANDWICH_RISK | PHISHING | MALICIOUS_CONTRACT

datatype RiskLevel = SAFE | RISKY | DANGEROUS

text \<open>The conversion \<^verbatim>\<open>ThreatType(i)\<close> of an integer to the enum.\<close>

definition ThreatType_of :: "nat \<Rightarrow> ThreatType result" where
  "ThreatType_of i =
     (if i = 0 then Inr HONEYPOT
      else if i = 1 then Inr RUGPULL
      else if i = 2 then Inr MEV_VULNERABILITY
      else if i = 3 then Inr SANDWICH_RISK
      else if i = 4 then Inr PHISHING
      else if i = 5 then Inr MALICIOUS_CONTRACT
      else Inl (Panic Enum_Conversion))"

record ThreatReport =
  reporter :: address
  threatType :: ThreatType
  riskScore :: nat
  evidence :: string
  timestamp :: nat
  validated :: bool
  validationCount :: nat

record ContractReputation =
  totalScore :: nat
  reportCount :: nat
  validationScore :: nat
  isVerified :: bool
  lastUpdated :: nat
  threatCounts :: "ThreatType \<Rightarrow> nat"

record SecurityMetrics =
  totalContracts :: nat
  flaggedContracts :: nat
  validatedReports :: nat
  falsePositives :: nat

text \<open>
  The contract's storage, with the owner slot of \<^verbatim>\<open>Ownable\<close> and the contract's ether
  balance. A Solidity mapping is a total function whose unwritten entries are zero.
\<close>

record ledger =
  contractReputations :: "address \<Rightarrow> ContractReputation"
  threatReports :: "bytes32 \<Rightarrow> ThreatReport"
  validators :: "address \<Rightarrow> bool"
  reporterScores :: "address \<Rightarrow> nat"
  metrics :: SecurityMetrics
  reportIdCounter :: nat
  reportFee :: nat
  validationReward :: nat
  owner :: address
  balance :: nat

definition MAX_RISK_SCORE :: nat where
  "MAX_RISK_SCORE = 100"

definition MIN_VALIDATOR_SCORE :: nat where
  "MIN_VALIDATOR_SCORE = 75"

text \<open>What a call sees of its transaction: \<^verbatim>\<open>msg.sender\<close> and \<^verbatim>\<open>block.timestamp\<close>.\<close>

record env =
  msg_sender :: address
  block_timestamp :: nat

text \<open>
  \<^verbatim>\<open>keccak256(abi.encodePacked(sender, target, threatType, timestamp, counter))\<close> is a
  parameter of the model: the hash is not computed here, and no theorem depends on which
  function it is.
\<close>

type_synonym keccak = "address \<Rightarrow> address \<Rightarrow> ThreatType \<Rightarrow> nat \<Rightarrow> nat \<Rightarrow> bytes32"

section \<open>Deployment\<close>

definition zero_report :: ThreatReport where
  "zero_report = \<lparr>reporter = 0, threatType = HONEYPOT, riskScore = 0, evidence = [],
     timestamp = 0, validated = False, validationCount = 0\<rparr>"

definition zero_reputation :: ContractReputation where
  "zero_reputation = \<lparr>totalScore = 0, reportCount = 0, validationScore = 0, isVerified = False,
     lastUpdated = 0, threatCounts = (\<lambda>_. 0)\<rparr>"

text \<open>
  Storage before the constructor body runs: everything zero except the two fee variables,
  which carry initialisers (\<^verbatim>\<open>0.001 ether\<close> and \<^verbatim>\<open>0.0005 ether\<close>, in wei).
\<close>

definition zero_ledger :: ledger where
  "zero_ledger = \<lparr>contractReputations = (\<lambda>_. zero_reputation), threatReports = (\<lambda>_. zero_report),
     validators = (\<lambda>_. False), reporterScores = (\<lambda>_. 0),
     metrics = \<lparr>totalContracts = 0, flaggedContracts = 0, validatedReports = 0, falsePositives = 0\<rparr>,
     reportIdCounter = 0, reportFee = 1000000000000000, validationReward = 500000000000000,
     owner = 0, balance = 0\<rparr>"

text \<open>\<^verbatim>\<open>Ownable\<close>'s constructor makes the deployer the owner; then the contract's own body runs.\<close>

definition constructor :: "address \<Rightarrow> ledger" where
  "constructor sender =
     (let s0 = zero_ledger\<lparr>owner := sender\<rparr>;
          s1 = s0\<lparr>validators := (validators s0)(sender := True)\<rparr>
      in s1\<lparr>reporterScores := (reporterScores s1)(sender := 100)\<rparr>)"

section \<open>Internal functions\<close>

text \<open>
  Solidity's leading underscore is dropped from the names of the internal functions:
  \<open>updateContractReputation\<close> is \<^verbatim>\<open>_updateContractReputation\<close>, and so on.
\<close>

definition isAlreadyFlagged :: "ledger \<Rightarrow> address \<Rightarrow> bool result" where
  "isAlreadyFlagged s a =
     (let reputation = contractReputations s a
      in and_then (checked_div (totalScore reputation) (reportCount reputation))
           (\<lambda>q. Inr (q > 70)))"

text \<open>A write through the storage reference \<^verbatim>\<open>reputation\<close>.\<close>

definition write_reputation :: "address \<Rightarrow> (ContractReputation \<Rightarrow> ContractReputation) \<Rightarrow> ledger \<Rightarrow> ledger" where
  "write_reputation a f s =
     s\<lparr>contractReputations := (contractReputations s)(a := f (contractReputations s a))\<rparr>"

text \<open>
  The statements of \<^verbatim>\<open>_updateContractReputation\<close> in order. The condition of the last
  \<^verbatim>\<open>if\<close> is a short-circuit \<^verbatim>\<open>&&\<close>: \<^verbatim>\<open>_isAlreadyFlagged\<close> is called only when the average
  exceeds 70, and it reads the storage that the preceding lines have just written.
\<close>

definition updateContractReputation :: "nat \<Rightarrow> address \<Rightarrow> ThreatType \<Rightarrow> nat \<Rightarrow> ledger \<Rightarrow> ledger result" where
  "updateContractReputation now a tt score s =
     and_then
       (if reportCount (contractReputations s a) = 0
        then and_then (checked_add (totalContracts (metrics s)) 1)
               (\<lambda>n. Inr (s\<lparr>metrics := (metrics s)\<lparr>totalContracts := n\<rparr>\<rparr>))
        else Inr s)
     (\<lambda>s1. and_then (checked_add (totalScore (contractReputations s1 a)) score)
     (\<lambda>ts. let s2 = write_reputation a (\<lambda>r. r\<lparr>totalScore := ts\<rparr>) s1 in
       and_then (checked_add (reportCount (contractReputations s2 a)) 1)
     (\<lambda>rc. let s3 = write_reputation a (\<lambda>r. r\<lparr>reportCount := rc\<rparr>) s2 in
       and_then (checked_add (threatCounts (contractReputations s3 a) tt) 1)
     (\<lambda>tc. let s4 = write_reputation a (\<lambda>r. r\<lparr>threatCounts := (threatCounts r)(tt := tc)\<rparr>) s3;
              s5 = write_reputation a (\<lambda>r. r\<lparr>lastUpdated := now\<rparr>) s4 in
       and_then (checked_div (totalScore (contractReputations s5 a)) (reportCount (contractReputations s5 a)))
     (\<lambda>avgScore.
       and_then (if avgScore > 70
                 then and_then (isAlreadyFlagged s5 a) (\<lambda>flagged. Inr (\<not> flagged))
                 else Inr False)
     (\<lambda>cond.
       if cond
       then and_then (checked_add (flaggedContracts (metrics s5)) 1)
              (\<lambda>n. Inr (s5\<lparr>metrics := (metrics s5)\<lparr>flaggedContracts := n\<rparr>\<rparr>))
       else Inr s5))))))"

definition updateReporterScore :: "address \<Rightarrow> bool \<Rightarrow> ledger \<Rightarrow> ledger result" where
  "updateReporterScore r positive s =
     (if positive then
        (if reporterScores s r < 100
         then and_then (checked_add (reporterScores s r) 1)
                (\<lambda>n. Inr (s\<lparr>reporterScores := (reporterScores s)(r := n)\<rparr>))
         else Inr s)
      else
        (if reporterScores s r > 0
         then and_then (checked_sub (reporterScores s r) 5)
                (\<lambda>n. Inr (s\<lparr>reporterScores := (reporterScores s)(r := n)\<rparr>))
         else Inr s))"

text \<open>
  The two loops of \<^verbatim>\<open>_getReportedThreats\<close>, each over \<open>i = 0, \<dots>, 5\<close>. The loop variables
  stay below 7, so their increments cannot overflow and are written as plain additions. The
  second loop writes into a memory array of fixed length; a write past its end panics.
\<close>

function count_loop :: "(ThreatType \<Rightarrow> nat) \<Rightarrow> nat \<Rightarrow> nat \<Rightarrow> nat result" where
  "count_loop tc i count =
     (if i < 6 then
        (case ThreatType_of i of
           Inl e \<Rightarrow> Inl e
         | Inr t \<Rightarrow> if tc t > 0 then count_loop tc (i + 1) (count + 1)
                    else count_loop tc (i + 1) count)
      else Inr count)"
  by pat_completeness auto
termination
  by (relation "measure (\<lambda>(tc, i, count). 6 - i)") auto

function fill_loop :: "(ThreatType \<Rightarrow> nat) \<Rightarrow> nat \<Rightarrow> nat \<Rightarrow> ThreatType list \<Rightarrow> ThreatType list result" where
  "fill_loop tc i index threats =
     (if i < 6 then
        (case ThreatType_of i of
           Inl e \<Rightarrow> Inl e
         | Inr t \<Rightarrow>
             if tc t > 0 then
               (if index < length threats
                then fill_loop tc (i + 1) (index + 1) (threats[index := t])
                else Inl (Panic Array_Out_Of_Bounds))
             else fill_loop tc (i + 1) index threats)
      else Inr threats)"
  by pat_completeness auto
termination
  by (relation "measure (\<lambda>(tc, i, index, threats). 6 - i)") auto

declare count_loop.simps [simp del]
declare fill_loop.simps [simp del]

definition getReportedThreats :: "ledger \<Rightarrow> address \<Rightarrow> ThreatType list result" where
  "getReportedThreats s a =
     (let reputation = contractReputations s a
      in and_then (count_loop (threatCounts reputation) 0 0)
           (\<lambda>count. fill_loop (threatCounts reputation) 0 0 (replicate count HONEYPOT)))"

section \<open>External functions\<close>

text \<open>
  Every function is modelled as a top-level call. Between transactions the guard of
  \<^verbatim>\<open>nonReentrant\<close> is open, and the only external call of the contract is the ether
  transfer, whose outcome is the parameter \<open>accepts\<close> below; the modifier therefore never
  fails here and is left out. Event emission does not touch storage and is left out as well.

  \<^verbatim>\<open>reportThreat\<close> is payable: the value sent is credited to the balance before the body
  runs. The modifier \<^verbatim>\<open>validRiskScore\<close> runs before the body's own \<^verbatim>\<open>require\<close>s. The other
  functions are not payable and take no value argument here: a call that sends ether to one
  of them is turned away before the function is entered.
\<close>

definition reportThreat ::
  "keccak \<Rightarrow> env \<Rightarrow> nat \<Rightarrow> address \<Rightarrow> ThreatType \<Rightarrow> nat \<Rightarrow> string \<Rightarrow> ledger \<Rightarrow> ledger result" where
  "reportThreat H e msg_value targetContract tt score ev s0 =
     (let s = s0\<lparr>balance := balance s0 + msg_value\<rparr> in
      if \<not> score \<le> MAX_RISK_SCORE then Inl (Revert ''Risk score exceeds maximum'')
      else if \<not> msg_value \<ge> reportFee s then Inl (Revert ''Insufficient fee'')
      else if \<not> targetContract \<noteq> 0 then Inl (Revert ''Invalid contract address'')
      else if \<not> length ev > 0 then Inl (Revert ''Evidence required'')
      else
        and_then (checked_add (reportIdCounter s) 1)
        (\<lambda>c. let reportId = H (msg_sender e) targetContract tt (block_timestamp e) (reportIdCounter s);
                 s1 = s\<lparr>reportIdCounter := c\<rparr>;
                 s2 = s1\<lparr>threatReports := (threatReports s1)(reportId :=
                        \<lparr>reporter = msg_sender e, threatType = tt, riskScore = score,
                         evidence = ev, timestamp = block_timestamp e, validated = False,
                         validationCount = 0\<rparr>)\<rparr> in
          and_then (updateContractReputation (block_timestamp e) targetContract tt score s2)
        (\<lambda>s3. updateReporterScore (msg_sender e) True s3)))"

text \<open>
  \<^verbatim>\<open>payable(a).transfer(v)\<close>: the recipient's account either takes the ether or the call
  reverts. Which accounts take it is a fact of the chain, given as \<open>accepts\<close>.
\<close>

definition transfer :: "(address \<Rightarrow> bool) \<Rightarrow> address \<Rightarrow> nat \<Rightarrow> ledger \<Rightarrow> ledger result" where
  "transfer accepts a v s =
     (if v \<le> balance s \<and> accepts a then Inr (s\<lparr>balance := balance s - v\<rparr>)
      else Inl Transfer_Failed)"

definition validateReport ::
  "(address \<Rightarrow> bool) \<Rightarrow> env \<Rightarrow> bytes32 \<Rightarrow> bool \<Rightarrow> ledger \<Rightarrow> ledger result" where
  "validateReport accepts e reportId isValid s =
     (if \<not> validators s (msg_sender e) then Inl (Revert ''Not authorized validator'')
      else
        let report = threatReports s reportId in
        if \<not> reporter report \<noteq> 0 then Inl (Revert ''Report does not exist'')
        else if \<not> \<not> validated report then Inl (Revert ''Report already validated'')
        else
          let s1 = s\<lparr>threatReports := (threatReports s)(reportId := report\<lparr>validated := True\<rparr>)\<rparr> in
          and_then (checked_add (validationCount (threatReports s1 reportId)) 1)
          (\<lambda>vc. let s2 = s1\<lparr>threatReports := (threatReports s1)(reportId :=
                           (threatReports s1 reportId)\<lparr>validationCount := vc\<rparr>)\<rparr> in
            and_then
              (if isValid then
                 and_then (checked_add (validatedReports (metrics s2)) 1)
                 (\<lambda>n. updateReporterScore (reporter (threatReports s2 reportId)) True
                        (s2\<lparr>metrics := (metrics s2)\<lparr>validatedReports := n\<rparr>\<rparr>))
               else
                 and_then (checked_add (falsePositives (metrics s2)) 1)
                 (\<lambda>n. updateReporterScore (reporter (threatReports s2 reportId)) False
                        (s2\<lparr>metrics := (metrics s2)\<lparr>falsePositives := n\<rparr>\<rparr>)))
          (\<lambda>s3. if balance s3 \<ge> validationReward s3
                then transfer accepts (msg_sender e) (validationReward s3) s3
                else Inr s3)))"

definition getRiskAnalysis :: "ledger \<Rightarrow> address \<Rightarrow> (RiskLevel \<times> nat \<times> nat \<times> ThreatType list) result" where
  "getRiskAnalysis s a =
     (let reputation = contractReputations s a;
          reportCount' = reportCount reputation
      in and_then (if reportCount' > 0 then checked_div (totalScore reputation) reportCount' else Inr 0)
         (\<lambda>riskScore'.
            let riskLevel = (if riskScore' \<le> 30 then SAFE
                             else if riskScore' \<le> 70 then RISKY
                             else DANGEROUS)
            in and_then (getReportedThreats s a)
                 (\<lambda>threatTypes. Inr (riskLevel, riskScore', reportCount', threatTypes))))"

definition getSecurityMetrics :: "ledger \<Rightarrow> SecurityMetrics" where
  "getSecurityMetrics s = metrics s"

definition isHighRiskContract :: "ledger \<Rightarrow> address \<Rightarrow> (bool \<times> nat) result" where
  "isHighRiskContract s a =
     (let reputation = contractReputations s a
      in and_then (if reportCount reputation > 0
                   then checked_div (totalScore reputation) (reportCount reputation)
                   else Inr 0)
         (\<lambda>riskScore'. Inr (riskScore' > 70, riskScore')))"

text \<open>\<^verbatim>\<open>onlyOwner\<close>, the modifier of \<^verbatim>\<open>Ownable\<close>.\<close>

definition onlyOwner :: "env \<Rightarrow> ledger \<Rightarrow> ledger result \<Rightarrow> ledger result" where
  "onlyOwner e s body =
     (if \<not> owner s = msg_sender e then Inl (Revert ''Ownable: caller is not the owner'') else body)"

definition addValidator :: "env \<Rightarrow> address \<Rightarrow> ledger \<Rightarrow> ledger result" where
  "addValidator e v s =
     onlyOwner e s
       (if \<not> v \<noteq> 0 then Inl (Revert ''Invalid validator address'')
        else if \<not> \<not> validators s v then Inl (Revert ''Already a validator'')
        else
          let s1 = s\<lparr>validators := (validators s)(v := True)\<rparr>
          in Inr (s1\<lparr>reporterScores := (reporterScores s1)(v := 100)\<rparr>))"

definition removeValidator :: "env \<Rightarrow> address \<Rightarrow> ledger \<Rightarrow> ledger result" where
  "removeValidator e v s =
     onlyOwner e s
       (if \<not> validators s v then Inl (Revert ''Not a validator'')
        else Inr (s\<lparr>validators := (validators s)(v := False)\<rparr>))"

definition updateFees :: "env \<Rightarrow> nat \<Rightarrow> nat \<Rightarrow> ledger \<Rightarrow> ledger result" where
  "updateFees e newReportFee newValidationReward s =
     onlyOwner e s (Inr (s\<lparr>reportFee := newReportFee, validationReward := newValidationReward\<rparr>))"

definition emergencyWithdraw :: "(address \<Rightarrow> bool) \<Rightarrow> env \<Rightarrow> ledger \<Rightarrow> ledger result" where
  "emergencyWithdraw accepts e s = onlyOwner e s (transfer accepts (owner s) (balance s) s)"

text \<open>
  The two public functions that the contract inherits from OpenZeppelin's \<^verbatim>\<open>Ownable\<close>
  (imported by the contract, not part of the repository's own sources). They write the owner
  slot only.
\<close>

definition transferOwnership :: "env \<Rightarrow> address \<Rightarrow> ledger \<Rightarrow> ledger result" where
  "transferOwnership e newOwner s =
     onlyOwner e s
       (if \<not> newOwner \<noteq> 0 then Inl (Revert ''Ownable: new owner is the zero address'')
        else Inr (s\<lparr>owner := newOwner\<rparr>))"

definition renounceOwnership :: "env \<Rightarrow> ledger \<Rightarrow> ledger result" where
  "renounceOwnership e s = onlyOwner e s (Inr (s\<lparr>owner := 0\<rparr>))"

text \<open>The \<^verbatim>\<open>receive\<close> function: plain ether sent to the contract.\<close>

definition receive :: "nat \<Rightarrow> ledger \<Rightarrow> ledger result" where
  "receive msg_value s = Inr (s\<lparr>balance := balance s + msg_value\<rparr>)"

section \<open>Transactions\<close>

text \<open>
  A transaction is one external call. When the call fails the chain keeps the ledger it had
  before the call; otherwise it keeps the ledger the call returns.
\<close>

datatype call =
    ReportThreat nat address ThreatType nat string
  | ValidateReport bytes32 bool
  | AddValidator address
  | RemoveValidator address
  | UpdateFees nat nat
  | EmergencyWithdraw
  | TransferOwnership address
  | RenounceOwnership
  | Receive nat

fun dispatch :: "keccak \<Rightarrow> (address \<Rightarrow> bool) \<Rightarrow> env \<Rightarrow> call \<Rightarrow> ledger \<Rightarrow> ledger result" where
  "dispatch H accepts e (ReportThreat v a tt score ev) s = reportThreat H e v a tt score ev s"
| "dispatch H accepts e (ValidateReport rid isValid) s = validateReport accepts e rid isValid s"
| "dispatch H accepts e (AddValidator v) s = addValidator e v s"
| "dispatch H accepts e (RemoveValidator v) s = removeValidator e v s"
| "dispatch H accepts e (UpdateFees f r) s = updateFees e f r s"
| "dispatch H accepts e EmergencyWithdraw s = emergencyWithdraw accepts e s"
| "dispatch H accepts e (TransferOwnership a) s = transferOwnership e a s"
| "dispatch H accepts e RenounceOwnership s = renounceOwnership e s"
| "dispatch H accepts e (Receive v) s = receive v s"

definition commit :: "ledger \<Rightarrow> ledger result \<Rightarrow> ledger" where
  "commit s r = (case r of Inl e \<Rightarrow> s | Inr s' \<Rightarrow> s')"

definition transact :: "keccak \<Rightarrow> (address \<Rightarrow> bool) \<Rightarrow> env \<times> call \<Rightarrow> ledger \<Rightarrow> ledger" where
  "transact H accepts tx s = commit s (dispatch H accepts (fst tx) (snd tx) s)"

fun run :: "keccak \<Rightarrow> (address \<Rightarrow> bool) \<Rightarrow> (env \<times> call) list \<Rightarrow> ledger \<Rightarrow> ledger" where
  "run H accepts [] s = s"
| "run H accepts (tx # txs) s = run H accepts txs (transact H accepts tx s)"

section \<open>Closed forms\<close>

text \<open>
  The definitions of this section are not part of the contract. They describe, in one
  expression each, what a call does; the lemmas of the next sections prove that the code
  above computes exactly these.
\<close>

definition all_threat_types :: "ThreatType list" where
  "all_threat_types =
     [HONEYPOT, RUGPULL, MEV_VULNERABILITY, SANDWICH_RISK, PHISHING, MALICIOUS_CONTRACT]"

definition reputation_after :: "nat \<Rightarrow> ThreatType \<Rightarrow> nat \<Rightarrow> ContractReputation \<Rightarrow> ContractReputation" where
  "reputation_after now tt score r =
     r\<lparr>totalScore := totalScore r + score, reportCount := reportCount r + 1,
       threatCounts := (threatCounts r)(tt := threatCounts r tt + 1), lastUpdated := now\<rparr>"

text \<open>Some checked addition of \<^verbatim>\<open>reportThreat\<close> leaves the range of \<^verbatim>\<open>uint256\<close>.\<close>

definition report_overflows :: "ledger \<Rightarrow> address \<Rightarrow> ThreatType \<Rightarrow> nat \<Rightarrow> bool" where
  "report_overflows s a tt score =
     (uint256_max < reportIdCounter s + 1
      \<or> (reportCount (contractReputations s a) = 0 \<and> uint256_max < totalContracts (metrics s) + 1)
      \<or> uint256_max < totalScore (contractReputations s a) + score
      \<or> uint256_max < reportCount (contractReputations s a) + 1
      \<or> uint256_max < threatCounts (contractReputations s a) tt + 1)"

definition reportThreat_post ::
  "keccak \<Rightarrow> env \<Rightarrow> nat \<Rightarrow> address \<Rightarrow> ThreatType \<Rightarrow> nat \<Rightarrow> string \<Rightarrow> ledger \<Rightarrow> ledger" where
  "reportThreat_post H e v a tt score ev s =
     s\<lparr>balance := balance s + v,
       reportIdCounter := reportIdCounter s + 1,
       threatReports := (threatReports s)
         (H (msg_sender e) a tt (block_timestamp e) (reportIdCounter s) :=
            \<lparr>reporter = msg_sender e, threatType = tt, riskScore = score, evidence = ev,
             timestamp = block_timestamp e, validated = False, validationCount = 0\<rparr>),
       metrics := (metrics s)\<lparr>totalContracts :=
         (if reportCount (contractReputations s a) = 0 then totalContracts (metrics s) + 1
          else totalContracts (metrics s))\<rparr>,
       contractReputations := (contractReputations s)
         (a := reputation_after (block_timestamp e) tt score (contractReputations s a)),
       reporterScores := (reporterScores s)
         (msg_sender e := (if reporterScores s (msg_sender e) < 100
                           then reporterScores s (msg_sender e) + 1
                           else reporterScores s (msg_sender e)))\<rparr>"

text \<open>Some checked increment of \<^verbatim>\<open>validateReport\<close> leaves the range of \<^verbatim>\<open>uint256\<close>.\<close>

definition validate_overflows :: "bytes32 \<Rightarrow> bool \<Rightarrow> ledger \<Rightarrow> bool" where
  "validate_overflows rid isValid s =
     (uint256_max < validationCount (threatReports s rid) + 1
      \<or> (isValid \<and> uint256_max < validatedReports (metrics s) + 1)
      \<or> (\<not> isValid \<and> uint256_max < falsePositives (metrics s) + 1))"

text \<open>
  The penalty \<^verbatim>\<open>reporterScores[_reporter] -= 5\<close> is reached with a score between 1 and 4:
  the guard before it only asks for a score above 0.
\<close>

definition penalty_underflows :: "bytes32 \<Rightarrow> bool \<Rightarrow> ledger \<Rightarrow> bool" where
  "penalty_underflows rid isValid s =
     (\<not> isValid \<and> 0 < reporterScores s (reporter (threatReports s rid))
      \<and> reporterScores s (reporter (threatReports s rid)) < 5)"

definition validateReport_post :: "env \<Rightarrow> bytes32 \<Rightarrow> bool \<Rightarrow> ledger \<Rightarrow> ledger" where
  "validateReport_post e rid isValid s =
     (let r = reporter (threatReports s rid); sc = reporterScores s r in
      s\<lparr>threatReports := (threatReports s)
          (rid := (threatReports s rid)\<lparr>validated := True,
                    validationCount := validationCount (threatReports s rid) + 1\<rparr>),
        metrics := (if isValid
                    then (metrics s)\<lparr>validatedReports := validatedReports (metrics s) + 1\<rparr>
                    else (metrics s)\<lparr>falsePositives := falsePositives (metrics s) + 1\<rparr>),
        reporterScores := (reporterScores s)
          (r := (if isValid then (if sc < 100 then sc + 1 else sc)
                 else (if sc = 0 then 0 else sc - 5))),
        balance := (if validationReward s \<le> balance s then balance s - validationReward s
                    else balance s)\<rparr>)"

text \<open>
  A bound on the counters that \<^verbatim>\<open>reportThreat\<close> increments: each is at most \<open>n\<close>, and each
  cumulative score at most \<open>100 * n\<close>. It holds after \<open>n\<close> transactions.
\<close>

definition counters_within :: "nat \<Rightarrow> ledger \<Rightarrow> bool" where
  "counters_within n s =
     (reportIdCounter s \<le> n \<and> totalContracts (metrics s) \<le> n
      \<and> (\<forall>a. reportCount (contractReputations s a) \<le> n
             \<and> totalScore (contractReputations s a) \<le> 100 * n
             \<and> (\<forall>t. threatCounts (contractReputations s a) t \<le> n)))"

section \<open>A scenario\<close>

text \<open>
  Four accounts, a stand-in for the hash (the report id is the counter), and the call
  environment of each account. The concrete instances below are evaluated on them.
\<close>

definition acct_owner :: address where "acct_owner = 1"
definition acct_reporter :: address where "acct_reporter = 2"
definition acct_validator :: address where "acct_validator = 3"
definition acct_target :: address where "acct_target = 4"

definition example_keccak :: keccak where
  "example_keccak sender target tt ts n = of_nat n"

definition call_from :: "address \<Rightarrow> env" where
  "call_from a = \<lparr>msg_sender = a, block_timestamp = 1700000000\<rparr>"

definition all_accept :: "address \<Rightarrow> bool" where
  "all_accept a = True"

text \<open>The validator is a contract account without a payable \<^verbatim>\<open>receive\<close>.\<close>

definition validator_refuses :: "address \<Rightarrow> bool" where
  "validator_refuses a = (a \<noteq> acct_validator)"

definition example_fee :: nat where
  "example_fee = 1000000000000000"

text \<open>Deployment by the owner, then one report by the reporter against the target.\<close>

definition ledger_deployed :: ledger where
  "ledger_deployed = constructor acct_owner"

definition report_call :: "ThreatType \<Rightarrow> nat \<Rightarrow> env \<times> call" where
  "report_call tt score =
     (call_from acct_reporter, ReportThreat example_fee acct_target tt score ''Contract prevents selling tokens'')"

definition ledger_reported :: "nat \<Rightarrow> ledger" where
  "ledger_reported score = transact example_keccak all_accept (report_call HONEYPOT score) ledger_deployed"

text \<open>Two reports of different types, the later type first in the enumeration.\<close>

definition ledger_two_reports :: ledger where
  "ledger_two_reports =
     run example_keccak all_accept [report_call PHISHING 60, report_call HONEYPOT 50] ledger_deployed"

text \<open>Three reports against the same target, each with a score above 70.\<close>

definition ledger_three_reports :: ledger where
  "ledger_three_reports =
     run example_keccak all_accept
       [report_call HONEYPOT 80, report_call HONEYPOT 90, report_call HONEYPOT 85] ledger_deployed"

text \<open>After the report with score 85: the owner adds the validator, or validates the report.\<close>

definition ledger_with_validator :: ledger where
  "ledger_with_validator =
     transact example_keccak all_accept (call_from acct_owner, AddValidator acct_validator)
       (ledger_reported 85)"

definition ledger_validated :: ledger where
  "ledger_validated =
     transact example_keccak all_accept (call_from acct_owner, ValidateReport 0 True)
       (ledger_reported 85)"

section \<open>The internal functions in closed form\<close>

lemma ThreatType_of_nth: "i < 6 \<Longrightarrow> ThreatType_of i = Inr (all_threat_types ! i)"
proof -
  assume "i < 6"
  then consider "i = 0" | "i = 1" | "i = 2" | "i = 3" | "i = 4" | "i = 5" by linarith
  then show ?thesis
    by cases (simp_all add: ThreatType_of_def all_threat_types_def)
qed

lemma length_all_threat_types: "length all_threat_types = 6"
  by (simp add: all_threat_types_def)

lemma drop_all_threat_types:
  "i < 6 \<Longrightarrow> drop i all_threat_types = all_threat_types ! i # drop (i + 1) all_threat_types"
  by (simp add: Cons_nth_drop_Suc length_all_threat_types)

text \<open>The first loop counts the types from \<open>i\<close> on that have a report.\<close>

lemma count_loop_eq:
  "i \<le> 6 \<Longrightarrow>
   count_loop tc i count = Inr (count + length (filter (\<lambda>t. tc t > 0) (drop i all_threat_types)))"
proof (induction tc i count rule: count_loop.induct)
  case (1 tc i count)
  show ?case
  proof (cases "i < 6")
    case True
    note t = ThreatType_of_nth [OF True]
    show ?thesis
    proof (cases "tc (all_threat_types ! i) > 0")
      case pos: True
      have "count_loop tc (i + 1) (count + 1) =
            Inr (count + 1 + length (filter (\<lambda>t. tc t > 0) (drop (i + 1) all_threat_types)))"
        using "1.IH"(1) [OF True t pos] True by simp
      then show ?thesis
        using True pos t
        by (subst count_loop.simps) (simp add: drop_all_threat_types [OF True])
    next
      case zero: False
      have "count_loop tc (i + 1) count =
            Inr (count + length (filter (\<lambda>t. tc t > 0) (drop (i + 1) all_threat_types)))"
        using "1.IH"(2) [OF True t zero] True by simp
      then show ?thesis
        using True zero t
        by (subst count_loop.simps) (simp add: drop_all_threat_types [OF True])
    qed
  next
    case False
    with "1.prems" have "i = 6" by simp
    then show ?thesis
      by (subst count_loop.simps) (simp add: length_all_threat_types)
  qed
qed

text \<open>
  The second loop never writes past the end of an array that has room for the types still
  to come, and leaves the slots below \<open>index\<close> as they are.
\<close>

lemma fill_loop_eq:
  "i \<le> 6 \<Longrightarrow>
   index + length (filter (\<lambda>t. tc t > 0) (drop i all_threat_types)) = length threats \<Longrightarrow>
   fill_loop tc i index threats =
     Inr (take index threats @ filter (\<lambda>t. tc t > 0) (drop i all_threat_types))"
proof (induction tc i index threats rule: fill_loop.induct)
  case (1 tc i index threats)
  show ?case
  proof (cases "i < 6")
    case True
    note t = ThreatType_of_nth [OF True]
    note d = drop_all_threat_types [OF True]
    show ?thesis
    proof (cases "tc (all_threat_types ! i) > 0")
      case pos: True
      from "1.prems"(2) pos have room: "index < length threats"
        by (simp add: d)
      have len: "index + 1 + length (filter (\<lambda>t. tc t > 0) (drop (i + 1) all_threat_types))
                 = length (threats[index := all_threat_types ! i])"
        using "1.prems"(2) pos by (simp add: d)
      have "fill_loop tc (i + 1) (index + 1) (threats[index := all_threat_types ! i]) =
            Inr (take (index + 1) (threats[index := all_threat_types ! i]) @
                 filter (\<lambda>t. tc t > 0) (drop (i + 1) all_threat_types))"
        using "1.IH"(1) [OF True t pos room _ len] True by simp
      moreover have "take (index + 1) (threats[index := all_threat_types ! i]) =
                     take index threats @ [all_threat_types ! i]"
        using room by (simp add: take_Suc_conv_app_nth)
      ultimately show ?thesis
        using True pos t room
        by (subst fill_loop.simps) (simp add: d)
    next
      case zero: False
      have len: "index + length (filter (\<lambda>t. tc t > 0) (drop (i + 1) all_threat_types))
                 = length threats"
        using "1.prems"(2) zero by (simp add: d)
      have "fill_loop tc (i + 1) index threats =
            Inr (take index threats @ filter (\<lambda>t. tc t > 0) (drop (i + 1) all_threat_types))"
        using "1.IH"(2) [OF True t zero _ len] True by simp
      then show ?thesis
        using True zero t
        by (subst fill_loop.simps) (simp add: d)
    qed
  next
    case False
    with "1.prems" have i6: "i = 6" by simp
    with "1.prems"(2) have "index = length threats"
      by (simp add: length_all_threat_types)
    with i6 show ?thesis
      by (subst fill_loop.simps) (simp add: length_all_threat_types)
  qed
qed

lemma getReportedThreats_eq:
  "getReportedThreats s a =
     Inr (filter (\<lambda>t. threatCounts (contractReputations s a) t > 0) all_threat_types)"
proof -
  let ?tc = "threatCounts (contractReputations s a)"
  let ?n = "length (filter (\<lambda>t. ?tc t > 0) all_threat_types)"
  have c: "count_loop ?tc 0 0 = Inr ?n"
    using count_loop_eq [of 0 ?tc 0] by simp
  have f: "fill_loop ?tc 0 0 (replicate ?n HONEYPOT) = Inr (filter (\<lambda>t. ?tc t > 0) all_threat_types)"
    using fill_loop_eq [of 0 0 ?tc "replicate ?n HONEYPOT"] by simp
  show ?thesis
    by (simp add: getReportedThreats_def Let_def and_then_def c f)
qed

text \<open>
  \<^verbatim>\<open>_updateContractReputation\<close> fails only by overflow. When it succeeds it writes the
  reputation and \<open>totalContracts\<close>, and nothing else: the increment of \<open>flaggedContracts\<close> is
  guarded by \<^verbatim>\<open>avgScore > 70 && !_isAlreadyFlagged(...)\<close>, where \<^verbatim>\<open>_isAlreadyFlagged\<close>
  recomputes the same average from the same storage.
\<close>

lemma updateContractReputation_eq:
  "updateContractReputation now a tt score s =
     (let r = contractReputations s a in
      if (reportCount r = 0 \<and> uint256_max < totalContracts (metrics s) + 1)
         \<or> uint256_max < totalScore r + score
         \<or> uint256_max < reportCount r + 1
         \<or> uint256_max < threatCounts r tt + 1
      then Inl (Panic Arithmetic_Overflow)
      else Inr (s\<lparr>metrics := (metrics s)\<lparr>totalContracts :=
                     (if reportCount r = 0 then totalContracts (metrics s) + 1
                      else totalContracts (metrics s))\<rparr>,
                 contractReputations := (contractReputations s)(a := reputation_after now tt score r)\<rparr>))"
  by (auto simp add: updateContractReputation_def Let_def and_then_def checked_add_def checked_div_def
      isAlreadyFlagged_def write_reputation_def reputation_after_def)

lemma updateReporterScore_eq:
  "updateReporterScore r positive s =
     (if positive then
        (if reporterScores s r < 100
         then Inr (s\<lparr>reporterScores := (reporterScores s)(r := reporterScores s r + 1)\<rparr>)
         else Inr s)
      else
        (if reporterScores s r = 0 then Inr s
         else if reporterScores s r < 5 then Inl (Panic Arithmetic_Overflow)
         else Inr (s\<lparr>reporterScores := (reporterScores s)(r := reporterScores s r - 5)\<rparr>)))"
  by (simp add: updateReporterScore_def and_then_def checked_add_def checked_sub_def uint256_max_def)

section \<open>The external functions in closed form\<close>

lemma reportThreat_eq:
  "reportThreat H e v a tt score ev s =
     (if 100 < score then Inl (Revert ''Risk score exceeds maximum'')
      else if v < reportFee s then Inl (Revert ''Insufficient fee'')
      else if a = 0 then Inl (Revert ''Invalid contract address'')
      else if ev = [] then Inl (Revert ''Evidence required'')
      else if report_overflows s a tt score then Inl (Panic Arithmetic_Overflow)
      else Inr (reportThreat_post H e v a tt score ev s))"
  by (auto simp add: reportThreat_def Let_def and_then_def checked_add_def MAX_RISK_SCORE_def
      updateContractReputation_eq updateReporterScore_eq reportThreat_post_def report_overflows_def)

lemma validateReport_eq:
  "validateReport acc e rid isValid s =
     (if \<not> validators s (msg_sender e) then Inl (Revert ''Not authorized validator'')
      else if reporter (threatReports s rid) = 0 then Inl (Revert ''Report does not exist'')
      else if validated (threatReports s rid) then Inl (Revert ''Report already validated'')
      else if validate_overflows rid isValid s \<or> penalty_underflows rid isValid s
        then Inl (Panic Arithmetic_Overflow)
      else if validationReward s \<le> balance s \<and> \<not> acc (msg_sender e) then Inl Transfer_Failed
      else Inr (validateReport_post e rid isValid s))"
  by (auto simp add: validateReport_def Let_def and_then_def checked_add_def transfer_def
      updateReporterScore_eq validateReport_post_def validate_overflows_def penalty_underflows_def
      fun_upd_idem)

lemma getRiskAnalysis_eq:
  "getRiskAnalysis s a =
     (let r = contractReputations s a;
          score = (if reportCount r > 0 then totalScore r div reportCount r else 0)
      in Inr (if score \<le> 30 then SAFE else if score \<le> 70 then RISKY else DANGEROUS,
              score, reportCount r,
              filter (\<lambda>t. threatCounts r t > 0) all_threat_types))"
  by (simp add: getRiskAnalysis_def Let_def and_then_def checked_div_def getReportedThreats_eq)

lemma isHighRiskContract_eq:
  "isHighRiskContract s a =
     (let r = contractReputations s a;
          score = (if reportCount r > 0 then totalScore r div reportCount r else 0)
      in Inr (score > 70, score))"
  by (simp add: isHighRiskContract_def Let_def and_then_def checked_div_def)

section \<open>Facts about all transactions\<close>

lemmas admin_defs =
  addValidator_def removeValidator_def updateFees_def emergencyWithdraw_def transferOwnership_def
  renounceOwnership_def receive_def onlyOwner_def transfer_def

lemma transact_flaggedContracts:
  "flaggedContracts (metrics (transact H acc tx s)) = flaggedContracts (metrics s)"
proof (cases tx)
  case (Pair e c)
  show ?thesis
    unfolding Pair transact_def commit_def
    by (cases c)
       (simp_all add: reportThreat_eq reportThreat_post_def validateReport_eq validateReport_post_def
          Let_def admin_defs)
qed

lemma run_flaggedContracts:
  "flaggedContracts (metrics (run H acc txs s)) = flaggedContracts (metrics s)"
  by (induction txs arbitrary: s) (simp_all add: transact_flaggedContracts)

lemma transact_reporterScores_le:
  assumes "\<forall>x. reporterScores s x \<le> 100"
  shows "reporterScores (transact H acc tx s) b \<le> 100"
proof (cases tx)
  case (Pair e c)
  have le: "reporterScores s x \<le> 100" for x using assms by simp
  show ?thesis
    unfolding Pair transact_def commit_def
    by (cases c)
       (simp_all add: reportThreat_eq reportThreat_post_def validateReport_eq validateReport_post_def
          Let_def admin_defs le le [THEN le_trans [OF diff_le_self]])
qed

lemma run_reporterScores_le:
  "\<forall>x. reporterScores s x \<le> 100 \<Longrightarrow> reporterScores (run H acc txs s) b \<le> 100"
  by (induction txs arbitrary: s b) (simp_all add: transact_reporterScores_le)

lemma constructor_reporterScores: "reporterScores (constructor d) a = (if a = d then 100 else 0)"
  by (simp add: constructor_def zero_ledger_def Let_def)

text \<open>
  No counter of \<^verbatim>\<open>reportThreat\<close> can overflow in a ledger that the deployed contract reaches
  in fewer than \<open>2 ^ 248\<close> transactions.
\<close>

lemma counters_within_constructor: "counters_within 0 (constructor d)"
  by (simp add: counters_within_def constructor_def zero_ledger_def zero_reputation_def Let_def)

lemma counters_within_mono: "counters_within n s \<Longrightarrow> n \<le> m \<Longrightarrow> counters_within m s"
  unfolding counters_within_def
  by (meson le_trans mult_le_mono2)

lemma counters_within_reportThreat_post:
  assumes "counters_within n s" and "score \<le> 100"
  shows "counters_within (Suc n) (reportThreat_post H e v a tt score ev s)"
proof -
  from assms(1) have c: "reportIdCounter s \<le> n" "totalContracts (metrics s) \<le> n"
    and r: "reportCount (contractReputations s x) \<le> n"
      "totalScore (contractReputations s x) \<le> 100 * n"
      "threatCounts (contractReputations s x) t \<le> n" for x t
    by (simp_all add: counters_within_def)
  have t1: "totalScore (contractReputations s a) + score \<le> 100 + 100 * n"
    using r(2) [of a] assms(2) by linarith
  have t2: "totalScore (contractReputations s x) \<le> 100 + 100 * n" for x
    using r(2) [of x] by linarith
  show ?thesis
    unfolding counters_within_def reportThreat_post_def reputation_after_def
    using c r
    by (auto simp add: le_SucI t1 t2)
qed

lemma counters_within_transact:
  assumes "counters_within n s"
  shows "counters_within (Suc n) (transact H acc tx s)"
proof (cases tx)
  case (Pair e c)
  note up = counters_within_mono [OF assms, of "Suc n"]
  have same: "counters_within (Suc n) s'"
    if "reportIdCounter s' = reportIdCounter s"
      "totalContracts (metrics s') = totalContracts (metrics s)"
      "contractReputations s' = contractReputations s" for s'
    using up that by (simp add: counters_within_def)
  show ?thesis
  proof (cases c)
    case (ReportThreat v a tt score ev)
    show ?thesis
      unfolding Pair ReportThreat transact_def commit_def
      using up counters_within_reportThreat_post [OF assms]
      by (simp add: reportThreat_eq)
  next
    case (ValidateReport rid isValid)
    show ?thesis
      unfolding Pair ValidateReport transact_def commit_def
      using up by (auto simp add: validateReport_eq validateReport_post_def Let_def intro!: same)
  qed (use up in \<open>auto simp add: Pair transact_def commit_def admin_defs Let_def intro!: same\<close>)
qed

lemma counters_within_run:
  "counters_within n s \<Longrightarrow> counters_within (n + length txs) (run H acc txs s)"
proof (induction txs arbitrary: n s)
  case Nil
  then show ?case by simp
next
  case (Cons tx txs)
  from Cons.IH [OF counters_within_transact [OF Cons.prems], of H acc tx]
  show ?case by simp
qed

lemma no_overflow_when_within:
  assumes "counters_within n s" and "score \<le> 100" and "n < 2 ^ 248"
  shows "\<not> report_overflows s a tt score"
proof -
  from assms(1) have c: "reportIdCounter s \<le> n" "totalContracts (metrics s) \<le> n"
    "reportCount (contractReputations s a) \<le> n"
    "totalScore (contractReputations s a) \<le> 100 * n"
    "threatCounts (contractReputations s a) tt \<le> n"
    by (simp_all add: counters_within_def)
  from assms(3) have "100 * n + 100 \<le> uint256_max"
    by (simp add: uint256_max_def)
  with c assms(2) show ?thesis
    unfolding report_overflows_def by linarith
qed

lemma reachable_no_report_overflow:
  assumes "length txs < 2 ^ 248" and "score \<le> 100"
  shows "\<not> report_overflows (run H acc txs (constructor d)) a tt score"
  using no_overflow_when_within [OF _ assms(2) assms(1)]
    counters_within_run [OF counters_within_constructor, of txs H acc d]
  by simp

section \<open>The scenario, evaluated\<close>

lemmas scenario_defs =
  ledger_deployed_def constructor_def zero_ledger_def zero_reputation_def zero_report_def
  acct_owner_def acct_reporter_def acct_validator_def acct_target_def example_keccak_def
  call_from_def all_accept_def validator_refuses_def example_fee_def report_call_def

lemma ledger_reported_eq:
  "score \<le> 100 \<Longrightarrow>
   ledger_reported score =
     reportThreat_post example_keccak (call_from acct_reporter) example_fee acct_target HONEYPOT score
       ''Contract prevents selling tokens'' ledger_deployed"
  by (simp add: ledger_reported_def transact_def commit_def reportThreat_eq report_overflows_def
      scenario_defs uint256_max_def)

lemma reported_call:
  "score \<le> 100 \<Longrightarrow>
   reportThreat example_keccak (call_from acct_reporter) example_fee acct_target HONEYPOT score
       ''Contract prevents selling tokens'' ledger_deployed = Inr (ledger_reported score)"
  by (simp add: ledger_reported_eq reportThreat_eq report_overflows_def scenario_defs uint256_max_def)

lemma second_call:
  "reportThreat example_keccak (call_from acct_reporter) example_fee acct_target RUGPULL 40
       ''Liquidity removed'' (ledger_reported 85) =
   Inr (reportThreat_post example_keccak (call_from acct_reporter) example_fee acct_target RUGPULL 40
       ''Liquidity removed'' (ledger_reported 85))"
  by (simp add: reportThreat_eq report_overflows_def ledger_reported_eq reportThreat_post_def
      reputation_after_def scenario_defs uint256_max_def)

lemma reported_reputation:
  "score \<le> 100 \<Longrightarrow>
   contractReputations (ledger_reported score) acct_target =
     \<lparr>totalScore = score, reportCount = 1, validationScore = 0, isVerified = False,
      lastUpdated = 1700000000, threatCounts = (\<lambda>_. 0)(HONEYPOT := 1)\<rparr>"
  by (simp add: ledger_reported_eq reportThreat_post_def reputation_after_def scenario_defs)

lemma two_reports_reputation:
  "contractReputations ledger_two_reports acct_target =
     \<lparr>totalScore = 110, reportCount = 2, validationScore = 0, isVerified = False,
      lastUpdated = 1700000000, threatCounts = (\<lambda>_. 0)(PHISHING := 1, HONEYPOT := 1)\<rparr>"
  by (simp add: ledger_two_reports_def transact_def commit_def reportThreat_eq report_overflows_def
      reportThreat_post_def reputation_after_def scenario_defs uint256_max_def)

lemma three_reports_reputation:
  "contractReputations ledger_three_reports acct_target =
     \<lparr>totalScore = 255, reportCount = 3, validationScore = 0, isVerified = False,
      lastUpdated = 1700000000, threatCounts = (\<lambda>_. 0)(HONEYPOT := 3)\<rparr>"
  by (simp add: ledger_three_reports_def transact_def commit_def reportThreat_eq report_overflows_def
      reportThreat_post_def reputation_after_def scenario_defs uint256_max_def numeral_3_eq_3)

lemma reported_facts:
  "validators (ledger_reported 85) acct_owner"
  "\<not> validators (ledger_reported 85) acct_reporter"
  "threatReports (ledger_reported 85) 0 =
     \<lparr>reporter = acct_reporter, threatType = HONEYPOT, riskScore = 85,
      evidence = ''Contract prevents selling tokens'', timestamp = 1700000000,
      validated = False, validationCount = 0\<rparr>"
  "threatReports (ledger_reported 85) 7 = zero_report"
  "reporterScores (ledger_reported 85) acct_reporter = 1"
  "metrics (ledger_reported 85) =
     \<lparr>totalContracts = 1, flaggedContracts = 0, validatedReports = 0, falsePositives = 0\<rparr>"
  "balance (ledger_reported 85) = 1000000000000000"
  "validationReward (ledger_reported 85) = 500000000000000"
  by (simp_all add: ledger_reported_eq reportThreat_post_def scenario_defs)

lemma with_validator_call:
  "addValidator (call_from acct_owner) acct_validator (ledger_reported 85) = Inr ledger_with_validator"
  by (simp add: ledger_with_validator_def transact_def commit_def addValidator_def onlyOwner_def
      Let_def ledger_reported_eq reportThreat_post_def scenario_defs)

lemma with_validator_facts:
  "validators ledger_with_validator acct_validator"
  "threatReports ledger_with_validator = threatReports (ledger_reported 85)"
  "balance ledger_with_validator = 1000000000000000"
  "validationReward ledger_with_validator = 500000000000000"
  "metrics ledger_with_validator = metrics (ledger_reported 85)"
  by (simp_all add: ledger_with_validator_def transact_def commit_def addValidator_def onlyOwner_def
      Let_def ledger_reported_eq reportThreat_post_def scenario_defs)

section \<open>The flagged-contract counter\<close>

text \<open>
  C1. The claim: for every target \<open>flaggedContracts\<close> is incremented exactly once, on the first
  report that takes the target's average above 70, so that it is 1 after a first report with
  score 85 and has grown by 1 after reports with scores 80, 90 and 85.

  The code does not do this. No sequence of calls to the deployed contract ever changes
  \<open>flaggedContracts\<close>: it is 0 in every ledger reached from deployment, and a successful
  \<^verbatim>\<open>reportThreat\<close> returns it as it found it. The instance below evaluates the two inputs of
  the claim: the average is 85 and the level \<open>DANGEROUS\<close>, and the counter is 0.
\<close>

theorem flaggedContracts_never_incremented:
  "flaggedContracts (metrics (run H acc txs (constructor d))) = 0
   \<and> (reportThreat H e v a tt score ev s = Inr s' \<longrightarrow>
        flaggedContracts (metrics s') = flaggedContracts (metrics s))"
  by (auto simp add: run_flaggedContracts constructor_def zero_ledger_def Let_def
      reportThreat_eq reportThreat_post_def split: if_splits)

theorem flaggedContracts_never_incremented_witness:
  "flaggedContracts (metrics (ledger_reported 85)) = 0
   \<and> getRiskAnalysis (ledger_reported 85) acct_target = Inr (DANGEROUS, 85, 1, [HONEYPOT])
   \<and> flaggedContracts (metrics ledger_three_reports) = 0
   \<and> getRiskAnalysis ledger_three_reports acct_target = Inr (DANGEROUS, 85, 3, [HONEYPOT])"
proof -
  have one: "ledger_reported 85 =
      run example_keccak all_accept [report_call HONEYPOT 85] (constructor acct_owner)"
    by (simp add: ledger_reported_def ledger_deployed_def)
  have "flaggedContracts (metrics (ledger_reported 85)) = 0"
    unfolding one using flaggedContracts_never_incremented by blast
  moreover have "flaggedContracts (metrics ledger_three_reports) = 0"
    unfolding ledger_three_reports_def ledger_deployed_def
    using flaggedContracts_never_incremented by blast
  moreover have "getRiskAnalysis (ledger_reported 85) acct_target = Inr (DANGEROUS, 85, 1, [HONEYPOT])"
    by (simp add: getRiskAnalysis_eq reported_reputation all_threat_types_def)
  moreover have "getRiskAnalysis ledger_three_reports acct_target = Inr (DANGEROUS, 85, 3, [HONEYPOT])"
    by (simp add: getRiskAnalysis_eq three_reports_reputation all_threat_types_def)
  ultimately show ?thesis by simp
qed

section \<open>Risk analysis\<close>

text \<open>
  C5. For every ledger and target, \<^verbatim>\<open>getRiskAnalysis\<close> returns (it never fails) the report
  count, the score \<open>totalScore div reportCount\<close> when there is a report and 0 when there is
  none, and the level \<open>SAFE\<close> exactly for a score of at most 30, \<open>RISKY\<close> exactly for a score
  from 31 to 70, and \<open>DANGEROUS\<close> exactly for a score above 70. The instance evaluates the
  scores 30, 31, 70 and 71, and a target without reports.
\<close>

theorem getRiskAnalysis_average_and_level:
  "\<exists>lvl score tts.
     getRiskAnalysis s a = Inr (lvl, score, reportCount (contractReputations s a), tts)
     \<and> score = (if reportCount (contractReputations s a) > 0
                 then totalScore (contractReputations s a) div reportCount (contractReputations s a)
                 else 0)
     \<and> (lvl = SAFE) = (score \<le> 30)
     \<and> (lvl = RISKY) = (31 \<le> score \<and> score \<le> 70)
     \<and> (lvl = DANGEROUS) = (70 < score)"
  by (auto simp add: getRiskAnalysis_eq Let_def)

theorem getRiskAnalysis_average_and_level_witness:
  "map_sum id (\<lambda>(lvl, score, n, tts). (lvl, score)) (getRiskAnalysis (ledger_reported 30) acct_target) = Inr (SAFE, 30)
   \<and> map_sum id (\<lambda>(lvl, score, n, tts). (lvl, score)) (getRiskAnalysis (ledger_reported 31) acct_target) = Inr (RISKY, 31)
   \<and> map_sum id (\<lambda>(lvl, score, n, tts). (lvl, score)) (getRiskAnalysis (ledger_reported 70) acct_target) = Inr (RISKY, 70)
   \<and> map_sum id (\<lambda>(lvl, score, n, tts). (lvl, score)) (getRiskAnalysis (ledger_reported 71) acct_target) = Inr (DANGEROUS, 71)
   \<and> map_sum id (\<lambda>(lvl, score, n, tts). (lvl, score)) (getRiskAnalysis ledger_deployed acct_target) = Inr (SAFE, 0)"
proof -
  have at: "map_sum id (\<lambda>(lvl, score, n, tts). (lvl, score)) (getRiskAnalysis s a) =
        Inr (if q \<le> 30 then SAFE else if q \<le> 70 then RISKY else DANGEROUS, q)"
    if "q = (if reportCount (contractReputations s a) > 0
             then totalScore (contractReputations s a) div reportCount (contractReputations s a)
             else 0)" for s a q
  proof -
    from getRiskAnalysis_average_and_level [of s a] obtain lvl score tts where
      g: "getRiskAnalysis s a = Inr (lvl, score, reportCount (contractReputations s a), tts)"
      and sc: "score = (if reportCount (contractReputations s a) > 0
                 then totalScore (contractReputations s a) div reportCount (contractReputations s a)
                 else 0)"
      and l: "(lvl = SAFE) = (score \<le> 30)" "(lvl = RISKY) = (31 \<le> score \<and> score \<le> 70)"
        "(lvl = DANGEROUS) = (70 < score)"
      by blast
    from sc that have "score = q" by simp
    with l have "lvl = (if q \<le> 30 then SAFE else if q \<le> 70 then RISKY else DANGEROUS)"
      by auto
    with g \<open>score = q\<close> show ?thesis by simp
  qed
  show ?thesis
    by (simp add: at reported_reputation) (simp add: at scenario_defs)
qed

text \<open>
  C6. For every ledger and target, \<^verbatim>\<open>isHighRiskContract\<close> returns the score that
  \<^verbatim>\<open>getRiskAnalysis\<close> returns, and its flag is true exactly when that score is above 70,
  which is exactly when \<^verbatim>\<open>getRiskAnalysis\<close> returns the level \<open>DANGEROUS\<close>.
\<close>

theorem isHighRiskContract_agrees_with_getRiskAnalysis:
  "\<exists>lvl score n tts.
     getRiskAnalysis s a = Inr (lvl, score, n, tts)
     \<and> isHighRiskContract s a = Inr (70 < score, score)
     \<and> (70 < score) = (lvl = DANGEROUS)"
  by (auto simp add: getRiskAnalysis_eq isHighRiskContract_eq Let_def)

theorem isHighRiskContract_agrees_with_getRiskAnalysis_witness:
  "isHighRiskContract (ledger_reported 85) acct_target = Inr (True, 85)
   \<and> isHighRiskContract (ledger_reported 70) acct_target = Inr (False, 70)"
proof -
  have at: "isHighRiskContract s a = Inr (lvl = DANGEROUS, score)"
    if "getRiskAnalysis s a = Inr (lvl, score, n, tts)" for s a lvl score n tts
    using isHighRiskContract_agrees_with_getRiskAnalysis [of s a] that by auto
  have "getRiskAnalysis (ledger_reported 85) acct_target = Inr (DANGEROUS, 85, 1, [HONEYPOT])"
    by (simp add: getRiskAnalysis_eq reported_reputation all_threat_types_def)
  moreover have "getRiskAnalysis (ledger_reported 70) acct_target = Inr (RISKY, 70, 1, [HONEYPOT])"
    by (simp add: getRiskAnalysis_eq reported_reputation all_threat_types_def)
  ultimately show ?thesis
    by (simp add: at)
qed

text \<open>
  C8. For every ledger and target, the threat types that \<^verbatim>\<open>getRiskAnalysis\<close> returns are the
  enumeration \<open>HONEYPOT\<close>, \<dots>, \<open>MALICIOUS_CONTRACT\<close> in that order, restricted to the types
  whose counter for the target is at least 1. In the instance the \<open>PHISHING\<close> report came
  before the \<open>HONEYPOT\<close> report, and \<open>HONEYPOT\<close> is listed first.
\<close>

theorem getRiskAnalysis_threatTypes:
  "map_sum id (\<lambda>(lvl, score, n, tts). tts) (getRiskAnalysis s a) =
     Inr (filter (\<lambda>t. 1 \<le> threatCounts (contractReputations s a) t)
            [HONEYPOT, RUGPULL, MEV_VULNERABILITY, SANDWICH_RISK, PHISHING, MALICIOUS_CONTRACT])"
  by (simp add: getRiskAnalysis_eq Let_def all_threat_types_def Suc_le_eq)

theorem getRiskAnalysis_threatTypes_witness:
  "map_sum id (\<lambda>(lvl, score, n, tts). tts) (getRiskAnalysis ledger_two_reports acct_target) =
     Inr [HONEYPOT, PHISHING]"
  using getRiskAnalysis_threatTypes [of ledger_two_reports acct_target]
  by (simp add: two_reports_reputation)

section \<open>Reporting\<close>

text \<open>
  C7. Every \<^verbatim>\<open>reportThreat\<close> call that is accepted increases the target's \<open>reportCount\<close> by 1,
  its \<open>totalScore\<close> by the submitted score and the counter of the submitted threat type by 1;
  it increases \<open>totalContracts\<close> by 1 when the target had no report before, and leaves it
  unchanged otherwise. The instance is the first report against the target, followed by a
  second one.
\<close>

theorem reportThreat_reputation_update:
  "reportThreat H e v a tt score ev s = Inr s' \<Longrightarrow>
     reportCount (contractReputations s' a) = reportCount (contractReputations s a) + 1
     \<and> totalScore (contractReputations s' a) = totalScore (contractReputations s a) + score
     \<and> threatCounts (contractReputations s' a) tt = threatCounts (contractReputations s a) tt + 1
     \<and> totalContracts (metrics s') =
         (if reportCount (contractReputations s a) = 0 then totalContracts (metrics s) + 1
          else totalContracts (metrics s))"
  by (auto simp add: reportThreat_eq reportThreat_post_def reputation_after_def split: if_splits)

theorem reportThreat_reputation_update_witness:
  "reportCount (contractReputations (ledger_reported 85) acct_target) = 1
   \<and> totalScore (contractReputations (ledger_reported 85) acct_target) = 85
   \<and> threatCounts (contractReputations (ledger_reported 85) acct_target) HONEYPOT = 1
   \<and> totalContracts (metrics (ledger_reported 85)) = 1
   \<and> totalContracts (metrics (reportThreat_post example_keccak (call_from acct_reporter) example_fee
        acct_target RUGPULL 40 ''Liquidity removed'' (ledger_reported 85))) = 1"
proof -
  have z: "reportCount (contractReputations ledger_deployed acct_target) = 0"
    "totalScore (contractReputations ledger_deployed acct_target) = 0"
    "threatCounts (contractReputations ledger_deployed acct_target) HONEYPOT = 0"
    "totalContracts (metrics ledger_deployed) = 0"
    by (simp_all add: scenario_defs)
  have call: "reportThreat example_keccak (call_from acct_reporter) example_fee acct_target HONEYPOT 85
       ''Contract prevents selling tokens'' ledger_deployed = Inr (ledger_reported 85)"
    by (simp add: reported_call)
  from reportThreat_reputation_update [OF call] z
  have first: "reportCount (contractReputations (ledger_reported 85) acct_target) = 1"
    "totalScore (contractReputations (ledger_reported 85) acct_target) = 85"
    "threatCounts (contractReputations (ledger_reported 85) acct_target) HONEYPOT = 1"
    "totalContracts (metrics (ledger_reported 85)) = 1"
    by simp_all
  from reportThreat_reputation_update [OF second_call] first
  have "totalContracts (metrics (reportThreat_post example_keccak (call_from acct_reporter) example_fee
        acct_target RUGPULL 40 ''Liquidity removed'' (ledger_reported 85))) = 1"
    by simp
  with first show ?thesis by simp
qed

text \<open>
  C9. \<^verbatim>\<open>reportThreat\<close> never fails with a division by zero, and neither does
  \<^verbatim>\<open>_updateContractReputation\<close>, from any ledger and on any arguments: the report count has
  been incremented before either division is reached. In the ledger that
  \<^verbatim>\<open>_updateContractReputation\<close> leaves, the target's report count is at least 1 and
  \<^verbatim>\<open>_isAlreadyFlagged\<close> does not divide by zero.
\<close>

theorem isAlreadyFlagged_division_safe:
  "reportThreat H e v a tt score ev s \<noteq> Inl (Panic Division_By_Zero)
   \<and> updateContractReputation now a tt score s \<noteq> Inl (Panic Division_By_Zero)
   \<and> (updateContractReputation now a tt score s = Inr s' \<longrightarrow>
        1 \<le> reportCount (contractReputations s' a)
        \<and> isAlreadyFlagged s' a \<noteq> Inl (Panic Division_By_Zero))"
  by (auto simp add: reportThreat_eq updateContractReputation_eq Let_def reputation_after_def
      isAlreadyFlagged_def checked_div_def and_then_def split: if_splits)

theorem isAlreadyFlagged_division_safe_witness:
  "reportThreat example_keccak (call_from acct_reporter) example_fee acct_target HONEYPOT 85
     ''Contract prevents selling tokens'' ledger_deployed \<noteq> Inl (Panic Division_By_Zero)
   \<and> (\<exists>s'. updateContractReputation 1700000000 acct_target HONEYPOT 85 ledger_deployed = Inr s'
        \<and> 1 \<le> reportCount (contractReputations s' acct_target)
        \<and> isAlreadyFlagged s' acct_target \<noteq> Inl (Panic Division_By_Zero))"
proof -
  have "\<exists>s'. updateContractReputation 1700000000 acct_target HONEYPOT 85 ledger_deployed = Inr s'"
    by (simp add: updateContractReputation_eq scenario_defs uint256_max_def Let_def)
  then show ?thesis
    using isAlreadyFlagged_division_safe by blast
qed

text \<open>
  C4. In a ledger where no counter is about to leave the range of \<^verbatim>\<open>uint256\<close>, and so in
  every ledger that the deployed contract reaches in fewer than \<open>2 ^ 248\<close> transactions,
  \<^verbatim>\<open>reportThreat\<close> rejects exactly when the value sent is below \<open>reportFee\<close>, the target is
  the zero address, the score is above 100, or the evidence is empty. A rejected call leaves
  the ledger as it was. The instance rejects the score 101, accepts the score 100, and
  rejects a fee one wei short, the zero target and the empty evidence.
\<close>

theorem reportThreat_rejects_exactly_when:
  "(\<not> report_overflows s a tt score \<longrightarrow>
      isl (reportThreat H e v a tt score ev s) = (v < reportFee s \<or> a = 0 \<or> 100 < score \<or> ev = []))
   \<and> (length txs < 2 ^ 248 \<and> s = run H acc txs (constructor d) \<longrightarrow>
      isl (reportThreat H e v a tt score ev s) = (v < reportFee s \<or> a = 0 \<or> 100 < score \<or> ev = []))
   \<and> (isl (reportThreat H e v a tt score ev s) \<longrightarrow>
        transact H acc (e, ReportThreat v a tt score ev) s = s)"
proof -
  have direct: "isl (reportThreat H e v a tt score ev s) = (v < reportFee s \<or> a = 0 \<or> 100 < score \<or> ev = [])"
    if "100 < score \<or> \<not> report_overflows s a tt score"
    using that by (auto simp add: reportThreat_eq)
  have "100 < score \<or> \<not> report_overflows s a tt score"
    if "length txs < 2 ^ 248" "s = run H acc txs (constructor d)"
    using that reachable_no_report_overflow [of txs score H acc d a tt]
    by (cases "score \<le> 100") simp_all
  moreover have "isl (reportThreat H e v a tt score ev s) \<longrightarrow>
        transact H acc (e, ReportThreat v a tt score ev) s = s"
    by (cases "reportThreat H e v a tt score ev s") (simp_all add: transact_def commit_def)
  ultimately show ?thesis
    using direct by blast
qed

theorem reportThreat_rejects_exactly_when_witness:
  "isl (reportThreat example_keccak (call_from acct_reporter) example_fee acct_target HONEYPOT 101 ''x'' ledger_deployed)
   \<and> \<not> isl (reportThreat example_keccak (call_from acct_reporter) example_fee acct_target HONEYPOT 100 ''x'' ledger_deployed)
   \<and> isl (reportThreat example_keccak (call_from acct_reporter) (example_fee - 1) acct_target HONEYPOT 100 ''x'' ledger_deployed)
   \<and> isl (reportThreat example_keccak (call_from acct_reporter) example_fee 0 HONEYPOT 100 ''x'' ledger_deployed)
   \<and> isl (reportThreat example_keccak (call_from acct_reporter) example_fee acct_target HONEYPOT 100 [] ledger_deployed)
   \<and> transact example_keccak all_accept
        (call_from acct_reporter, ReportThreat example_fee acct_target HONEYPOT 101 ''x'') ledger_deployed
       = ledger_deployed"
proof -
  have reach: "length ([] :: (env \<times> call) list) < 2 ^ 248
      \<and> ledger_deployed = run example_keccak all_accept [] (constructor acct_owner)"
    by (simp add: ledger_deployed_def)
  have iff: "isl (reportThreat example_keccak e v a tt score ev ledger_deployed) =
      (v < reportFee ledger_deployed \<or> a = 0 \<or> 100 < score \<or> ev = [])" for e v a tt score ev
    using reportThreat_rejects_exactly_when [of ledger_deployed a tt score example_keccak e v ev "[]"
        all_accept acct_owner] reach
    by blast
  have unchanged: "transact example_keccak all_accept (e, ReportThreat v a tt score ev) ledger_deployed
      = ledger_deployed"
    if "isl (reportThreat example_keccak e v a tt score ev ledger_deployed)" for e v a tt score ev
    using reportThreat_rejects_exactly_when [of ledger_deployed a tt score example_keccak e v ev "[]"
        all_accept acct_owner] that
    by blast
  have fee: "reportFee ledger_deployed = example_fee"
    by (simp add: scenario_defs)
  show ?thesis
    by (simp add: iff unchanged fee) (simp add: example_fee_def acct_target_def)
qed

section \<open>Validation\<close>

text \<open>
  C2. The claim: a negative validation outcome lowers the reporter's score by 5, floored at 0,
  and \<^verbatim>\<open>validateReport\<close> succeeds whatever the score is; a fresh reporter has 0, has 1 after
  one report, and is back at 0 after that report is validated as invalid.

  The code does not do this. When the reporter's score is 1, 2, 3 or 4, a call of
  \<^verbatim>\<open>validateReport\<close> with \<open>isValid = false\<close> that passes the three \<^verbatim>\<open>require\<close>s fails with the
  arithmetic panic of \<^verbatim>\<open>reporterScores[_reporter] -= 5\<close>, and the ledger stays as it was. The
  instance is the scenario of the claim: the fresh reporter has 0, then 1, the invalid
  validation fails, and the score is still 1.
\<close>

theorem validateReport_penalty_underflows:
  "validators s (msg_sender e) \<Longrightarrow>
   reporter (threatReports s rid) \<noteq> 0 \<Longrightarrow>
   \<not> validated (threatReports s rid) \<Longrightarrow>
   0 < reporterScores s (reporter (threatReports s rid)) \<Longrightarrow>
   reporterScores s (reporter (threatReports s rid)) < 5 \<Longrightarrow>
   validateReport acc e rid False s = Inl (Panic Arithmetic_Overflow)
   \<and> transact H acc (e, ValidateReport rid False) s = s"
  by (simp add: validateReport_eq penalty_underflows_def transact_def commit_def)

theorem validateReport_penalty_underflows_witness:
  "reporterScores ledger_deployed acct_reporter = 0
   \<and> reporterScores (ledger_reported 85) acct_reporter = 1
   \<and> validateReport all_accept (call_from acct_owner) 0 False (ledger_reported 85)
       = Inl (Panic Arithmetic_Overflow)
   \<and> reporterScores (transact example_keccak all_accept (call_from acct_owner, ValidateReport 0 False)
        (ledger_reported 85)) acct_reporter = 1"
proof -
  have "validateReport all_accept (call_from acct_owner) 0 False (ledger_reported 85)
          = Inl (Panic Arithmetic_Overflow)
        \<and> transact example_keccak all_accept (call_from acct_owner, ValidateReport 0 False)
            (ledger_reported 85) = ledger_reported 85"
    by (rule validateReport_penalty_underflows)
       (simp_all add: reported_facts, simp_all add: call_from_def reported_facts acct_reporter_def)
  moreover have "reporterScores ledger_deployed acct_reporter = 0"
    by (simp add: scenario_defs)
  ultimately show ?thesis
    by (simp add: reported_facts)
qed

text \<open>
  C3, as amended. \<^verbatim>\<open>validateReport\<close> rejects when the caller is not a validator, when the
  report id is unknown, and when the report is already validated. When none of these holds,
  no counter overflows, and the call is valid or the reporter's score is 0 or at least 5, it
  rejects exactly when the balance covers \<open>validationReward\<close> and the caller's account
  refuses the transfer. A rejected call leaves the ledger as it was. A call that succeeds
  marks the report validated and increments its validation count; if valid it increments
  \<open>validatedReports\<close> and adds 1 to a reporter's score below 100; if invalid it increments
  \<open>falsePositives\<close>, leaves a reporter's score of 0 and takes 5 from a score of at least 5.
  Every later validation of the same report is rejected.
\<close>

theorem validateReport_outcomes:
  "(\<not> validators s (msg_sender e) \<longrightarrow>
      validateReport acc e rid isValid s = Inl (Revert ''Not authorized validator''))
   \<and> (validators s (msg_sender e) \<and> reporter (threatReports s rid) = 0 \<longrightarrow>
      validateReport acc e rid isValid s = Inl (Revert ''Report does not exist''))
   \<and> (validators s (msg_sender e) \<and> reporter (threatReports s rid) \<noteq> 0
        \<and> validated (threatReports s rid) \<longrightarrow>
      validateReport acc e rid isValid s = Inl (Revert ''Report already validated''))
   \<and> (validators s (msg_sender e) \<and> reporter (threatReports s rid) \<noteq> 0
        \<and> \<not> validated (threatReports s rid)
        \<and> \<not> validate_overflows rid isValid s \<and> \<not> penalty_underflows rid isValid s \<longrightarrow>
      isl (validateReport acc e rid isValid s) =
        (validationReward s \<le> balance s \<and> \<not> acc (msg_sender e)))
   \<and> (isl (validateReport acc e rid isValid s) \<longrightarrow>
        transact H acc (e, ValidateReport rid isValid) s = s)
   \<and> (validateReport acc e rid isValid s = Inr s' \<longrightarrow>
        validated (threatReports s' rid)
        \<and> validationCount (threatReports s' rid) = validationCount (threatReports s rid) + 1
        \<and> validatedReports (metrics s') = validatedReports (metrics s) + (if isValid then 1 else 0)
        \<and> falsePositives (metrics s') = falsePositives (metrics s) + (if isValid then 0 else 1)
        \<and> (isValid \<longrightarrow> reporterScores s' (reporter (threatReports s rid)) =
              (if reporterScores s (reporter (threatReports s rid)) < 100
               then reporterScores s (reporter (threatReports s rid)) + 1
               else reporterScores s (reporter (threatReports s rid))))
        \<and> (\<not> isValid \<and> reporterScores s (reporter (threatReports s rid)) = 0 \<longrightarrow>
              reporterScores s' (reporter (threatReports s rid)) = 0)
        \<and> (\<not> isValid \<and> 5 \<le> reporterScores s (reporter (threatReports s rid)) \<longrightarrow>
              reporterScores s' (reporter (threatReports s rid)) =
                reporterScores s (reporter (threatReports s rid)) - 5)
        \<and> isl (validateReport acc' e' rid isValid' s'))"
proof -
  have rej: "isl (validateReport acc e rid isValid s) \<longrightarrow>
        transact H acc (e, ValidateReport rid isValid) s = s"
    by (cases "validateReport acc e rid isValid s") (simp_all add: transact_def commit_def)
  have succ: "validated (threatReports s' rid)
        \<and> validationCount (threatReports s' rid) = validationCount (threatReports s rid) + 1
        \<and> validatedReports (metrics s') = validatedReports (metrics s) + (if isValid then 1 else 0)
        \<and> falsePositives (metrics s') = falsePositives (metrics s) + (if isValid then 0 else 1)
        \<and> (isValid \<longrightarrow> reporterScores s' (reporter (threatReports s rid)) =
              (if reporterScores s (reporter (threatReports s rid)) < 100
               then reporterScores s (reporter (threatReports s rid)) + 1
               else reporterScores s (reporter (threatReports s rid))))
        \<and> (\<not> isValid \<and> reporterScores s (reporter (threatReports s rid)) = 0 \<longrightarrow>
              reporterScores s' (reporter (threatReports s rid)) = 0)
        \<and> (\<not> isValid \<and> 5 \<le> reporterScores s (reporter (threatReports s rid)) \<longrightarrow>
              reporterScores s' (reporter (threatReports s rid)) =
                reporterScores s (reporter (threatReports s rid)) - 5)
        \<and> isl (validateReport acc' e' rid isValid' s')"
    if ok: "validateReport acc e rid isValid s = Inr s'"
  proof -
    from ok have post: "s' = validateReport_post e rid isValid s"
      by (simp add: validateReport_eq split: if_splits)
    have again: "isl (validateReport acc' e' rid isValid' s')"
      unfolding post by (simp add: validateReport_eq [of acc' e'] validateReport_post_def Let_def)
    show ?thesis
      using again unfolding post by (simp add: validateReport_post_def Let_def)
  qed
  show ?thesis
    using rej succ by (simp add: validateReport_eq)
qed

theorem validateReport_outcomes_witness:
  "validateReport all_accept (call_from acct_reporter) 0 True (ledger_reported 85)
     = Inl (Revert ''Not authorized validator'')
   \<and> validateReport all_accept (call_from acct_owner) 7 True (ledger_reported 85)
     = Inl (Revert ''Report does not exist'')
   \<and> validateReport all_accept (call_from acct_owner) 0 True (ledger_reported 85) = Inr ledger_validated
   \<and> validated (threatReports ledger_validated 0)
   \<and> validatedReports (metrics ledger_validated) = 1
   \<and> falsePositives (metrics ledger_validated) = 0
   \<and> reporterScores ledger_validated acct_reporter = 2
   \<and> isl (validateReport all_accept (call_from acct_owner) 0 False ledger_validated)"
proof -
  note t = validateReport_outcomes [where s = "ledger_reported 85" and acc = all_accept
      and isValid = True and H = example_keccak]
  have sender: "msg_sender (call_from x) = x" for x
    by (simp add: call_from_def)
  have a: "validateReport all_accept (call_from acct_reporter) 0 True (ledger_reported 85)
     = Inl (Revert ''Not authorized validator'')"
    using t [where e = "call_from acct_reporter" and rid = 0] by (simp add: sender reported_facts)
  have b: "validateReport all_accept (call_from acct_owner) 7 True (ledger_reported 85)
     = Inl (Revert ''Report does not exist'')"
    using t [where e = "call_from acct_owner" and rid = 7]
    by (simp add: sender reported_facts zero_report_def)
  note u = t [where e = "call_from acct_owner" and rid = 0]
  have "\<not> isl (validateReport all_accept (call_from acct_owner) 0 True (ledger_reported 85))"
    using u
    by (simp add: sender reported_facts validate_overflows_def penalty_underflows_def
        uint256_max_def all_accept_def acct_reporter_def)
  then obtain s' where ok:
    "validateReport all_accept (call_from acct_owner) 0 True (ledger_reported 85) = Inr s'"
    by (cases "validateReport all_accept (call_from acct_owner) 0 True (ledger_reported 85)") simp_all
  then have s': "s' = ledger_validated"
    by (simp add: ledger_validated_def transact_def commit_def)
  from u [where s' = ledger_validated and acc' = all_accept and e' = "call_from acct_owner"
      and isValid' = False] ok
  have "validated (threatReports ledger_validated 0)
   \<and> validatedReports (metrics ledger_validated) = 1
   \<and> falsePositives (metrics ledger_validated) = 0
   \<and> reporterScores ledger_validated acct_reporter = 2
   \<and> isl (validateReport all_accept (call_from acct_owner) 0 False ledger_validated)"
    unfolding s' by (simp add: reported_facts)
  with a b ok s' show ?thesis by simp
qed

text \<open>
  C3 as first stated (rejection exactly when the caller is no validator, the id is unknown or
  the report is validated) fails: here the caller is a validator, the report exists and is
  not validated, the call is a valid confirmation, and \<^verbatim>\<open>validateReport\<close> rejects, because
  the balance covers the reward and the validator's account does not accept the transfer.
\<close>

theorem validateReport_rejects_refused_transfer:
  "validators ledger_with_validator acct_validator
   \<and> reporter (threatReports ledger_with_validator 0) \<noteq> 0
   \<and> \<not> validated (threatReports ledger_with_validator 0)
   \<and> validateReport validator_refuses (call_from acct_validator) 0 True ledger_with_validator
       = Inl Transfer_Failed"
  by (simp add: validateReport_eq with_validator_facts reported_facts validate_overflows_def
      penalty_underflows_def uint256_max_def call_from_def validator_refuses_def acct_reporter_def)

section \<open>Reporter scores\<close>

text \<open>
  C10. No reporter score exceeds 100: not after deployment, where the deployer's score is
  exactly 100, not after any sequence of transactions, and every single transaction keeps
  the bound from any ledger that has it. \<^verbatim>\<open>addValidator\<close> sets the new validator's score to
  exactly 100, the positive adjustment adds 1 only to a score below 100, and the negative
  adjustment never increases a score.
\<close>

theorem reporterScore_at_most_100:
  "reporterScores (constructor d) a \<le> 100
   \<and> reporterScores (constructor d) d = 100
   \<and> reporterScores (run H acc txs (constructor d)) b \<le> 100
   \<and> ((\<forall>x. reporterScores s x \<le> 100) \<longrightarrow> reporterScores (transact H acc tx s) c \<le> 100)
   \<and> (addValidator e v s = Inr s' \<longrightarrow> reporterScores s' v = 100)
   \<and> (updateReporterScore r True s = Inr s' \<longrightarrow>
        reporterScores s' r = (if reporterScores s r < 100 then reporterScores s r + 1
                               else reporterScores s r))
   \<and> (updateReporterScore r False s = Inr s' \<longrightarrow> reporterScores s' r \<le> reporterScores s r)"
proof -
  have "reporterScores (run H acc txs (constructor d)) b \<le> 100"
    by (rule run_reporterScores_le) (simp add: constructor_reporterScores)
  moreover have "(\<forall>x. reporterScores s x \<le> 100) \<longrightarrow> reporterScores (transact H acc tx s) c \<le> 100"
    using transact_reporterScores_le by blast
  moreover have "addValidator e v s = Inr s' \<longrightarrow> reporterScores s' v = 100"
    by (auto simp add: addValidator_def onlyOwner_def Let_def split: if_splits)
  moreover have "updateReporterScore r True s = Inr s' \<longrightarrow>
        reporterScores s' r = (if reporterScores s r < 100 then reporterScores s r + 1
                               else reporterScores s r)"
    by (auto simp add: updateReporterScore_eq split: if_splits)
  moreover have "updateReporterScore r False s = Inr s' \<longrightarrow> reporterScores s' r \<le> reporterScores s r"
    by (auto simp add: updateReporterScore_eq split: if_splits)
  ultimately show ?thesis
    by (simp add: constructor_reporterScores)
qed

theorem reporterScore_at_most_100_witness:
  "reporterScores ledger_deployed acct_owner = 100
   \<and> reporterScores ledger_three_reports acct_reporter \<le> 100
   \<and> reporterScores (transact example_keccak all_accept (report_call HONEYPOT 85) ledger_deployed)
        acct_reporter \<le> 100
   \<and> reporterScores ledger_with_validator acct_validator = 100"
proof -
  note t = reporterScore_at_most_100
  have "reporterScores ledger_deployed acct_owner = 100"
    unfolding ledger_deployed_def using t by blast
  moreover have "reporterScores ledger_three_reports acct_reporter \<le> 100"
    unfolding ledger_three_reports_def ledger_deployed_def using t by blast
  moreover have "\<forall>x. reporterScores ledger_deployed x \<le> 100"
    by (simp add: scenario_defs)
  then have "reporterScores (transact example_keccak all_accept (report_call HONEYPOT 85) ledger_deployed)
        acct_reporter \<le> 100"
    using t by blast
  moreover have "reporterScores ledger_with_validator acct_validator = 100"
    using t with_validator_call by blast
  ultimately show ?thesis by simp
qed

end
